theory Spec2Isabelle
  imports Main
begin

section \<open>Data model of \<open>menpofit/aps/fitter.py\<close>\<close>

text \<open>
  Python values whose classes live outside the module (appearance, shape and deformation
  models, patch shapes, images, transforms, solver classes, sampling entries) are opaque:
  they are values of a type variable \<open>'v\<close>, compared by equality only.

  The exceptions the module can surface: the \<open>ValueError\<close> of a validation helper,
  which carries, in place of its message, the name of the argument that the helper
  rejected; the \<open>IndexError\<close> of a list subscript out of range; the
  \<open>AttributeError\<close> of reading an attribute that was never assigned.
\<close>

datatype error = ValueError string | IndexError | AttributeError

text \<open>
  The trained model is passed by reference. A reference is an address; the store maps an
  address to the attributes of the model object that this module reads.
\<close>

type_synonym ref = nat

record 'v GenerativeAPS =
  appearance_models :: "'v list"
  shape_models :: "'v list"
  deformation_models :: "'v list"
  patch_shape :: "'v list"
  patch_normalisation :: "'v list"
  use_procrustes :: bool
  n_scales :: nat
  scales :: "'v list"
  reference_shape :: 'v
  holistic_features :: 'v

type_synonym 'v store = "ref \<Rightarrow> 'v GenerativeAPS"

text \<open>
  \<open>OrthoPDM(sm)\<close> and \<open>PDM(sm)\<close>: the two point-distribution-model wrappers of
  \<open>menpofit.modelinstance\<close>, each built from one shape model.
\<close>

datatype 'v pdm = is_OrthoPDM: OrthoPDM (pdm_shape_model: 'v) | is_PDM: PDM (pdm_shape_model: 'v)

text \<open>
  Modelled from the spec: the class \<open>GaussNewtonBaseInterface\<close> of
  \<open>menpofit/aps/algorithm/gn.py\<close> is missing. The solver interface wrapper is
  "constructed from (appearance model, deformation model, PDM wrapper, deformation-cost
  flag, template, sampling, patch shape, patch normalisation)"; an instance is the tuple
  of its constructor arguments, in the positional order of the call in \<open>_set_up\<close>.
\<close>

datatype 'v interface =
  GaussNewtonBaseInterface
    (iface_appearance_model: 'v)
    (iface_deformation_model: 'v)
    (iface_pdm: "'v pdm")
    (iface_use_deformation_cost: bool)
    (iface_template: 'v)
    (iface_sampling: 'v)
    (iface_patch_shape: 'v)
    (iface_patch_normalisation: 'v)

text \<open>
  Modelled from the spec: the solver classes (\<open>Inverse\<close> and the other Gauss-Newton
  variants of \<open>menpofit/aps/algorithm/gn.py\<close>) are missing. A solver is "constructed
  from one interface object"; the instance \<open>gn_algorithm_cls(interface)\<close> is the pair of
  the class and the interface it was given.
\<close>

datatype 'v algorithm =
  Algorithm (algorithm_cls: 'v) (algorithm_interface: "'v interface")

text \<open>
  Modelled from the spec: the class \<open>APSResult\<close> of \<open>menpofit/aps/result.py\<close> is
  missing. The aggregate result is "constructed from (per-scale results, scales, affine
  transforms, scale transforms, image, optional ground truth)"; an instance is the tuple
  of the keyword arguments of the call in \<open>_fitter_result\<close>.
\<close>

datatype 'v APSResult =
  APSResult
    (result_results: "'v list")
    (result_scales: "'v list")
    (result_affine_transforms: "'v list")
    (result_scale_transforms: "'v list")
    (result_image: 'v)
    (result_gt_shape: "'v option")

text \<open>
  A fitter object is its attribute dictionary: each attribute that the module or its
  base class assigns is a field, \<open>None\<close> until the first assignment. \<open>attr_model\<close> is
  \<open>self._model\<close>, \<open>attr_sampling\<close> is \<open>self._sampling\<close>, \<open>attr_algorithms\<close> is
  \<open>self.algorithms\<close>; the last three fields are what the orchestration base keeps.
\<close>

record 'v fitter =
  attr_model :: "ref option"
  attr_sampling :: "'v list option"
  attr_algorithms :: "'v algorithm list option"
  attr_scales :: "'v list option"
  attr_reference_shape :: "'v option"
  attr_holistic_features :: "'v option"

definition new_object :: "'v fitter" where
  "new_object =
     \<lparr>attr_model = None, attr_sampling = None, attr_algorithms = None,
      attr_scales = None, attr_reference_shape = None, attr_holistic_features = None\<rparr>"

text \<open>
  The collaborators that the constructor of the Gauss-Newton fitter calls and that are
  defined outside the module are parameters of the model:
  \<^item> \<open>ext_check_n_shape\<close> is \<open>self._check_n_shape(n_shape)\<close>, inherited from the
    orchestration base. Modelled from the spec: the shape-component selection is
    "validated by an external routine against the scale count; invalid shapes fail with a
    validation error raised by that routine", and the trained model is "immutable from
    this component's perspective": the routine sees the store, the fitter and the
    selection, and either raises (\<open>Some e\<close>) or passes (\<open>None\<close>).
  \<^item> \<open>ext_check_sampling\<close> is \<open>checks.check_sampling(sampling, n_scales)\<close>: it raises
    or returns the normalised list.
  \<^item> \<open>ext_mean\<close> is the method \<open>mean()\<close> of an appearance model.
\<close>

record ('v, 'n, 'sp) externals =
  ext_check_n_shape :: "'v store \<Rightarrow> 'v fitter \<Rightarrow> 'n \<Rightarrow> error option"
  ext_check_sampling :: "'sp \<Rightarrow> nat \<Rightarrow> error + 'v list"
  ext_mean :: "'v \<Rightarrow> 'v"

section \<open>The base class \<open>APSFitter\<close>\<close>

text \<open>
  Modelled from the spec: \<open>MultiScaleParametricFitter.__init__\<close> of
  \<open>menpofit/fitter.py\<close> is missing. The orchestration base "accepts (scales, reference
  shape, holistic feature config, algorithm list) at construction"; it keeps the four
  values on the object.
\<close>

definition MultiScaleParametricFitter_init ::
  "'v fitter \<Rightarrow> 'v list \<Rightarrow> 'v \<Rightarrow> 'v \<Rightarrow> 'v algorithm list \<Rightarrow> 'v fitter \<times> error option" where
  "MultiScaleParametricFitter_init self scales' reference_shape' holistic_features' algorithms =
     (self\<lparr>attr_scales := Some scales',
           attr_reference_shape := Some reference_shape',
           attr_holistic_features := Some holistic_features',
           attr_algorithms := Some algorithms\<rparr>, None)"

text \<open>
  \<open>APSFitter.__init__(self, aps, algorithms)\<close>. A method takes the object and returns
  the object as it leaves it, with the exception raised if any.
\<close>

definition APSFitter_init ::
  "'v store \<Rightarrow> 'v fitter \<Rightarrow> ref \<Rightarrow> 'v algorithm list \<Rightarrow> 'v fitter \<times> error option" where
  "APSFitter_init h self aps algorithms =
     (let self1 = self\<lparr>attr_model := Some aps\<rparr>
      in MultiScaleParametricFitter_init self1
           (scales (h aps)) (reference_shape (h aps)) (holistic_features (h aps)) algorithms)"

text \<open>
  Calling a class allocates an object without attributes, runs \<open>__init__\<close> on it and
  hands the object to the caller only if \<open>__init__\<close> returned; otherwise the exception
  reaches the caller and the object is dropped.
\<close>

definition instantiate :: "'v fitter \<times> error option \<Rightarrow> error + 'v fitter" where
  "instantiate r = (case r of (self, None) \<Rightarrow> Inr self | (self, Some e) \<Rightarrow> Inl e)"

definition APSFitter :: "'v store \<Rightarrow> ref \<Rightarrow> 'v algorithm list \<Rightarrow> error + 'v fitter" where
  "APSFitter h aps algorithms = instantiate (APSFitter_init h new_object aps algorithms)"

text \<open>The property \<open>aps\<close>: \<open>return self._model\<close>.\<close>

definition aps :: "'v fitter \<Rightarrow> error + ref" where
  "aps self = (case attr_model self of None \<Rightarrow> Inl AttributeError | Some r \<Rightarrow> Inr r)"

text \<open>
  \<open>_fitter_result(self, image, algorithm_results, affine_transforms, scale_transforms,
  gt_shape=None)\<close>. The only attribute read is \<open>self.scales\<close>.
\<close>

definition fitter_result ::
  "'v fitter \<Rightarrow> 'v \<Rightarrow> 'v list \<Rightarrow> 'v list \<Rightarrow> 'v list \<Rightarrow> 'v option
     \<Rightarrow> 'v fitter \<times> (error + 'v APSResult)" where
  "fitter_result self image' algorithm_results affine_transforms scale_transforms gt_shape =
     (case attr_scales self of
        None \<Rightarrow> (self, Inl AttributeError)
      | Some sc \<Rightarrow>
          (self, Inr (APSResult algorithm_results sc affine_transforms scale_transforms
                        image' gt_shape)))"

section \<open>The concrete class \<open>GaussNewtonAPSFitter\<close>\<close>

text \<open>A list subscript \<open>xs[j]\<close> with \<open>j\<close> a loop counter (never negative).\<close>

definition getitem :: "'a list \<Rightarrow> nat \<Rightarrow> error + 'a" where
  "getitem xs j = (if j < length xs then Inr (xs ! j) else Inl IndexError)"

text \<open>
  The body of the \<open>for\<close> loop of \<open>_set_up\<close>, over the remaining items of
  \<open>enumerate(zip(appearance_models, shape_models, deformation_models, _sampling))\<close>.
  The loop assigns neither \<open>self._model\<close> nor anything in the store, so the attributes
  \<open>m\<close> of the model are read once; \<open>algs\<close> is \<open>self.algorithms\<close>, grown by \<open>append\<close>.
  An exception leaves the list as it was when the exception was raised.
\<close>

fun set_up_loop ::
  "('v \<Rightarrow> 'v) \<Rightarrow> 'v GenerativeAPS \<Rightarrow> 'v \<Rightarrow> bool \<Rightarrow> (nat \<times> 'v \<times> 'v \<times> 'v \<times> 'v) list
     \<Rightarrow> 'v algorithm list \<Rightarrow> 'v algorithm list \<times> error option" where
  "set_up_loop mean m gn_algorithm_cls use_deformation_cost [] algs = (algs, None)"
| "set_up_loop mean m gn_algorithm_cls use_deformation_cost ((j, am, sm, dm, s) # rest) algs =
     (let template = mean am;
          pdm = (if use_procrustes m then OrthoPDM sm else PDM sm)
      in case getitem (patch_shape m) j of
           Inl e \<Rightarrow> (algs, Some e)
         | Inr ps \<Rightarrow>
             (case getitem (patch_normalisation m) j of
                Inl e \<Rightarrow> (algs, Some e)
              | Inr pn \<Rightarrow>
                  (let interface = GaussNewtonBaseInterface am dm pdm use_deformation_cost
                                     template s ps pn
                   in set_up_loop mean m gn_algorithm_cls use_deformation_cost rest
                        (algs @ [Algorithm gn_algorithm_cls interface]))))"

text \<open>
  \<open>_set_up(self, gn_algorithm_cls, use_deformation_cost)\<close>. Python's \<open>zip\<close> stops at
  the shortest of its arguments, as \<open>zip\<close> on lists does; \<open>enumerate\<close> counts from 0.
\<close>

definition set_up ::
  "('v, 'n, 'sp) externals \<Rightarrow> 'v store \<Rightarrow> 'v fitter \<Rightarrow> 'v \<Rightarrow> bool
     \<Rightarrow> 'v fitter \<times> error option" where
  "set_up E h self gn_algorithm_cls use_deformation_cost =
     (let self1 = self\<lparr>attr_algorithms := Some []\<rparr>
      in case aps self1 of
           Inl e \<Rightarrow> (self1, Some e)
         | Inr r \<Rightarrow>
             (case attr_sampling self1 of
                None \<Rightarrow> (self1, Some AttributeError)
              | Some sampling \<Rightarrow>
                  (let m = h r;
                       items = enumerate 0
                                 (zip (appearance_models m)
                                    (zip (shape_models m)
                                       (zip (deformation_models m) sampling)));
                       (algs, exc) = set_up_loop (ext_mean E) m gn_algorithm_cls
                                       use_deformation_cost items []
                   in (self1\<lparr>attr_algorithms := Some algs\<rparr>, exc))))"

text \<open>
  \<open>GaussNewtonAPSFitter.__init__(self, aps, gn_algorithm_cls, n_shape,
  use_deformation_cost, sampling)\<close>.
\<close>

definition GaussNewtonAPSFitter_init ::
  "('v, 'n, 'sp) externals \<Rightarrow> 'v store \<Rightarrow> 'v fitter \<Rightarrow> ref \<Rightarrow> 'v \<Rightarrow> 'n \<Rightarrow> bool \<Rightarrow> 'sp
     \<Rightarrow> 'v fitter \<times> error option" where
  "GaussNewtonAPSFitter_init E h self aps' gn_algorithm_cls n_shape use_deformation_cost sampling =
     (let self1 = self\<lparr>attr_model := Some aps'\<rparr>
      in case ext_check_n_shape E h self1 n_shape of
           Some e \<Rightarrow> (self1, Some e)
         | None \<Rightarrow>
             (case ext_check_sampling E sampling (n_scales (h aps')) of
                Inl e \<Rightarrow> (self1, Some e)
              | Inr checked \<Rightarrow>
                  set_up E h (self1\<lparr>attr_sampling := Some checked\<rparr>)
                    gn_algorithm_cls use_deformation_cost))"

definition GaussNewtonAPSFitter ::
  "('v, 'n, 'sp) externals \<Rightarrow> 'v store \<Rightarrow> ref \<Rightarrow> 'v \<Rightarrow> 'n \<Rightarrow> bool \<Rightarrow> 'sp
     \<Rightarrow> error + 'v fitter" where
  "GaussNewtonAPSFitter E h aps' gn_algorithm_cls n_shape use_deformation_cost sampling =
     instantiate
       (GaussNewtonAPSFitter_init E h new_object aps' gn_algorithm_cls n_shape
          use_deformation_cost sampling)"

section \<open>What one pass of the loop builds\<close>

text \<open>
  The algorithm object that the loop body builds from one item of the enumerated zip,
  when both subscripts are in range.
\<close>

definition wire ::
  "('v \<Rightarrow> 'v) \<Rightarrow> 'v GenerativeAPS \<Rightarrow> 'v \<Rightarrow> bool \<Rightarrow> nat \<times> 'v \<times> 'v \<times> 'v \<times> 'v \<Rightarrow> 'v algorithm" where
  "wire mean m cls udc item =
     (case item of (j, am, sm, dm, s) \<Rightarrow>
        Algorithm cls
          (GaussNewtonBaseInterface am dm
             (if use_procrustes m then OrthoPDM sm else PDM sm)
             udc (mean am) s (patch_shape m ! j) (patch_normalisation m ! j)))"

definition in_range :: "'v GenerativeAPS \<Rightarrow> nat \<times> 'v \<times> 'v \<times> 'v \<times> 'v \<Rightarrow> bool" where
  "in_range m item =
     (fst item < length (patch_shape m) \<and> fst item < length (patch_normalisation m))"

text \<open>
  The items that the loop of \<open>_set_up\<close> runs over, for a trained model and a
  normalised sampling list.
\<close>

definition scale_items ::
  "'v GenerativeAPS \<Rightarrow> 'v list \<Rightarrow> (nat \<times> 'v \<times> 'v \<times> 'v \<times> 'v) list" where
  "scale_items m sampling =
     enumerate 0
       (zip (appearance_models m)
          (zip (shape_models m) (zip (deformation_models m) sampling)))"

section \<open>The sampling validator\<close>

text \<open>
  Modelled from the spec: \<open>checks.check_sampling\<close> of \<open>menpofit/checks.py\<close> is
  missing. The sampling specification is "normalized via an external routine into exactly
  one entry per scale (values: None, an integer step, or an explicit boolean/index mask);
  a count mismatch fails with an error raised by that routine". A specification is one
  value, which every scale gets, or a list of values, one per scale.
\<close>

datatype 'v sampling_spec = SamplingValue 'v | SamplingList "'v list"

definition check_sampling :: "'v sampling_spec \<Rightarrow> nat \<Rightarrow> error + 'v list" where
  "check_sampling sampling n =
     (case sampling of
        SamplingValue v \<Rightarrow> Inr (replicate n v)
      | SamplingList vs \<Rightarrow>
          if length vs = n then Inr vs else Inl (ValueError ''sampling''))"

section \<open>Example inputs\<close>

text \<open>
  A trained model with two scales, and four variants of it: one whose patch shapes are
  missing, one that lost its second appearance model, one with both defects, and a
  well-formed one whose flag \<open>use_procrustes\<close> is false. Opaque values are natural
  numbers.
\<close>

definition example_model :: "nat GenerativeAPS" where
  "example_model =
     \<lparr>appearance_models = [10, 11], shape_models = [20, 21],
      deformation_models = [30, 31], patch_shape = [40, 41],
      patch_normalisation = [50, 51], use_procrustes = True, n_scales = 2,
      scales = [1, 2], reference_shape = 60, holistic_features = 70\<rparr>"

definition example_store :: "nat store" where
  "example_store r =
     (if r = 0 then example_model
      else if r = 1 then example_model\<lparr>patch_shape := []\<rparr>
      else if r = 2 then example_model\<lparr>appearance_models := [10]\<rparr>
      else if r = 3 then example_model\<lparr>appearance_models := [10], patch_shape := []\<rparr>
      else example_model\<lparr>use_procrustes := False\<rparr>)"

definition example_mean :: "nat \<Rightarrow> nat" where
  "example_mean am = am + 100"

definition accept_n_shape :: "nat store \<Rightarrow> nat fitter \<Rightarrow> nat option \<Rightarrow> error option" where
  "accept_n_shape h self n_shape = None"

definition example_externals :: "(nat, nat option, nat sampling_spec) externals" where
  "example_externals =
     \<lparr>ext_check_n_shape = accept_n_shape, ext_check_sampling = check_sampling,
      ext_mean = example_mean\<rparr>"

text \<open>
  The fitter that the constructor builds from the model of reference 0, the solver class
  7 and the sampling list \<open>[2, 3]\<close>.
\<close>

definition example_algorithms :: "nat algorithm list" where
  "example_algorithms =
     [Algorithm 7 (GaussNewtonBaseInterface 10 30 (OrthoPDM 20) True 110 2 40 50),
      Algorithm 7 (GaussNewtonBaseInterface 11 31 (OrthoPDM 21) True 111 3 41 51)]"

definition example_fitter :: "nat fitter" where
  "example_fitter =
     \<lparr>attr_model = Some 0, attr_sampling = Some [2, 3],
      attr_algorithms = Some example_algorithms,
      attr_scales = None, attr_reference_shape = None, attr_holistic_features = None\<rparr>"

text \<open>
  The fitter that the constructor builds, with the same arguments, from the model of
  reference 4, whose flag is false.
\<close>

definition example_plain_algorithms :: "nat algorithm list" where
  "example_plain_algorithms =
     [Algorithm 7 (GaussNewtonBaseInterface 10 30 (PDM 20) True 110 2 40 50),
      Algorithm 7 (GaussNewtonBaseInterface 11 31 (PDM 21) True 111 3 41 51)]"

definition example_plain_fitter :: "nat fitter" where
  "example_plain_fitter =
     \<lparr>attr_model = Some 4, attr_sampling = Some [2, 3],
      attr_algorithms = Some example_plain_algorithms,
      attr_scales = None, attr_reference_shape = None, attr_holistic_features = None\<rparr>"



text \<open>
  The fitter that the base class builds from the model of reference 0 and the two
  algorithms of the first example.
\<close>

definition example_base_fitter :: "nat fitter" where
  "example_base_fitter =
     \<lparr>attr_model = Some 0, attr_sampling = None,
      attr_algorithms = Some example_algorithms,
      attr_scales = Some [1, 2], attr_reference_shape = Some 60,
      attr_holistic_features = Some 70\<rparr>"

section \<open>Properties of the loop\<close>

lemma set_up_loop_eq:
  "set_up_loop mean m cls udc items algs =
     (algs @ map (wire mean m cls udc) (takeWhile (in_range m) items),
      if list_all (in_range m) items then None else Some IndexError)"
proof (induction items arbitrary: algs)
  case Nil
  show ?case by simp
next
  case (Cons item items)
  obtain j am sm dm s where item: "item = (j, am, sm, dm, s)"
    by (cases item) auto
  show ?case
    unfolding item
    by (simp add: Cons.IH getitem_def wire_def in_range_def Let_def)
qed

lemma length_scale_items:
  "length (scale_items m ss) =
     min (length (appearance_models m))
       (min (length (shape_models m)) (min (length (deformation_models m)) (length ss)))"
  by (simp add: scale_items_def)

lemma nth_scale_items:
  "j < length (scale_items m ss) \<Longrightarrow>
     scale_items m ss ! j =
       (j, appearance_models m ! j, shape_models m ! j, deformation_models m ! j, ss ! j)"
  by (simp add: scale_items_def nth_enumerate_eq)

lemma in_range_scale_items:
  "list_all (in_range m) (scale_items m ss) \<longleftrightarrow>
     (\<forall>j < length (scale_items m ss).
        j < length (patch_shape m) \<and> j < length (patch_normalisation m))"
  by (simp add: list_all_length nth_scale_items in_range_def)

lemma in_range_scale_items_le:
  assumes "length (scale_items m ss) \<le> length (patch_shape m)"
    and "length (scale_items m ss) \<le> length (patch_normalisation m)"
  shows "list_all (in_range m) (scale_items m ss)"
  unfolding in_range_scale_items using assms by auto

lemma takeWhile_all: "list_all P xs \<Longrightarrow> takeWhile P xs = xs"
  by (induction xs) auto

lemma nth_wired:
  assumes "j < length (scale_items m ss)"
  shows "map (wire mean m cls udc) (scale_items m ss) ! j =
     Algorithm cls
       (GaussNewtonBaseInterface (appearance_models m ! j) (deformation_models m ! j)
          (if use_procrustes m then OrthoPDM (shape_models m ! j)
           else PDM (shape_models m ! j))
          udc (mean (appearance_models m ! j)) (ss ! j)
          (patch_shape m ! j) (patch_normalisation m ! j))"
  using assms by (simp add: nth_scale_items wire_def)

section \<open>Properties of \<open>_set_up\<close> and of the constructor\<close>

lemma set_up_eq:
  assumes "attr_model self = Some r" and "attr_sampling self = Some ss"
  shows "set_up E h self cls udc =
     (self\<lparr>attr_algorithms :=
              Some (map (wire (ext_mean E) (h r) cls udc)
                      (takeWhile (in_range (h r)) (scale_items (h r) ss)))\<rparr>,
      if list_all (in_range (h r)) (scale_items (h r) ss) then None else Some IndexError)"
  using assms
  by (simp add: set_up_def aps_def Let_def set_up_loop_eq scale_items_def)

lemma init_eq:
  "GaussNewtonAPSFitter_init E h self r cls n_shape udc sampling =
     (case ext_check_n_shape E h (self\<lparr>attr_model := Some r\<rparr>) n_shape of
        Some e \<Rightarrow> (self\<lparr>attr_model := Some r\<rparr>, Some e)
      | None \<Rightarrow>
          (case ext_check_sampling E sampling (n_scales (h r)) of
             Inl e \<Rightarrow> (self\<lparr>attr_model := Some r\<rparr>, Some e)
           | Inr ss \<Rightarrow>
               (self\<lparr>attr_model := Some r, attr_sampling := Some ss,
                     attr_algorithms :=
                       Some (map (wire (ext_mean E) (h r) cls udc)
                               (takeWhile (in_range (h r)) (scale_items (h r) ss)))\<rparr>,
                if list_all (in_range (h r)) (scale_items (h r) ss) then None
                else Some IndexError)))"
  by (simp add: GaussNewtonAPSFitter_init_def Let_def set_up_eq split: option.splits sum.splits)

text \<open>
  The constructor returns an object exactly when both validators pass and every
  subscript of the loop is in range; the object is then determined.
\<close>

lemma GaussNewtonAPSFitter_Inr:
  "GaussNewtonAPSFitter E h r cls n_shape udc sampling = Inr f \<longleftrightarrow>
     ext_check_n_shape E h (new_object\<lparr>attr_model := Some r\<rparr>) n_shape = None \<and>
     (\<exists>ss. ext_check_sampling E sampling (n_scales (h r)) = Inr ss \<and>
        list_all (in_range (h r)) (scale_items (h r) ss) \<and>
        f = new_object\<lparr>attr_model := Some r, attr_sampling := Some ss,
              attr_algorithms :=
                Some (map (wire (ext_mean E) (h r) cls udc) (scale_items (h r) ss))\<rparr>)"
  by (auto simp add: GaussNewtonAPSFitter_def instantiate_def init_eq takeWhile_all
      split: option.splits sum.splits)

lemma GaussNewtonAPSFitter_algorithms:
  assumes "GaussNewtonAPSFitter E h r cls n_shape udc sampling = Inr f"
    and "attr_sampling f = Some ss"
    and "attr_algorithms f = Some algs"
  shows "ext_check_sampling E sampling (n_scales (h r)) = Inr ss"
    and "list_all (in_range (h r)) (scale_items (h r) ss)"
    and "algs = map (wire (ext_mean E) (h r) cls udc) (scale_items (h r) ss)"
  using assms unfolding GaussNewtonAPSFitter_Inr by auto

lemma GaussNewtonAPSFitter_succeeds:
  assumes "ext_check_n_shape E h (new_object\<lparr>attr_model := Some r\<rparr>) n_shape = None"
    and "ext_check_sampling E sampling (n_scales (h r)) = Inr ss"
    and "length (scale_items (h r) ss) \<le> length (patch_shape (h r))"
    and "length (scale_items (h r) ss) \<le> length (patch_normalisation (h r))"
  shows "GaussNewtonAPSFitter E h r cls n_shape udc sampling =
     Inr (new_object\<lparr>attr_model := Some r, attr_sampling := Some ss,
            attr_algorithms :=
              Some (map (wire (ext_mean E) (h r) cls udc) (scale_items (h r) ss))\<rparr>)"
  unfolding GaussNewtonAPSFitter_Inr
  using assms in_range_scale_items_le by auto

lemma example_run:
  "GaussNewtonAPSFitter example_externals example_store 0 7 None True (SamplingList [2, 3]) =
     Inr example_fitter"
  by (simp add: GaussNewtonAPSFitter_def GaussNewtonAPSFitter_init_def instantiate_def
      set_up_def aps_def new_object_def example_externals_def example_store_def
      example_model_def example_mean_def accept_n_shape_def check_sampling_def getitem_def
      example_fitter_def example_algorithms_def)

lemma example_fitter_attrs:
  "attr_sampling example_fitter = Some [2, 3]"
  "attr_algorithms example_fitter = Some example_algorithms"
  by (simp_all add: example_fitter_def)

lemma example_plain_run:
  "GaussNewtonAPSFitter example_externals example_store 4 7 None True (SamplingList [2, 3]) =
     Inr example_plain_fitter"
  by (simp add: GaussNewtonAPSFitter_def GaussNewtonAPSFitter_init_def instantiate_def
      set_up_def aps_def new_object_def example_externals_def example_store_def
      example_model_def example_mean_def accept_n_shape_def check_sampling_def getitem_def
      example_plain_fitter_def example_plain_algorithms_def)

lemma example_plain_fitter_attrs:
  "attr_sampling example_plain_fitter = Some [2, 3]"
  "attr_algorithms example_plain_fitter = Some example_plain_algorithms"
  by (simp_all add: example_plain_fitter_def)

lemma example_accepts:
  "ext_check_n_shape example_externals example_store (new_object\<lparr>attr_model := Some r\<rparr>)
     None = None"
  by (simp add: example_externals_def accept_n_shape_def)

text \<open>
  Every fitter that the constructor returns has one algorithm for each position that the
  four zipped lists reach, and the algorithm at position \<open>j\<close> is wired from position
  \<open>j\<close> of every list.
\<close>

lemma GaussNewtonAPSFitter_nth:
  assumes "GaussNewtonAPSFitter E h r cls n_shape udc sampling = Inr f"
    and "attr_sampling f = Some ss"
    and "attr_algorithms f = Some algs"
  shows "length algs =
       min (length (appearance_models (h r)))
         (min (length (shape_models (h r)))
            (min (length (deformation_models (h r))) (length ss)))"
    and "j < length algs \<Longrightarrow>
       algs ! j =
         Algorithm cls
           (GaussNewtonBaseInterface (appearance_models (h r) ! j)
              (deformation_models (h r) ! j)
              (if use_procrustes (h r) then OrthoPDM (shape_models (h r) ! j)
               else PDM (shape_models (h r) ! j))
              udc (ext_mean E (appearance_models (h r) ! j)) (ss ! j)
              (patch_shape (h r) ! j) (patch_normalisation (h r) ! j))"
    and "j < length algs \<Longrightarrow>
       j < length (patch_shape (h r)) \<and> j < length (patch_normalisation (h r))"
proof -
  note facts = GaussNewtonAPSFitter_algorithms [OF assms]
  show "length algs =
       min (length (appearance_models (h r)))
         (min (length (shape_models (h r)))
            (min (length (deformation_models (h r))) (length ss)))"
    using facts(3) by (simp add: length_scale_items)
  show "algs ! j =
         Algorithm cls
           (GaussNewtonBaseInterface (appearance_models (h r) ! j)
              (deformation_models (h r) ! j)
              (if use_procrustes (h r) then OrthoPDM (shape_models (h r) ! j)
               else PDM (shape_models (h r) ! j))
              udc (ext_mean E (appearance_models (h r) ! j)) (ss ! j)
              (patch_shape (h r) ! j) (patch_normalisation (h r) ! j))"
    if "j < length algs"
  proof -
    have "j < length (scale_items (h r) ss)"
      using that facts(3) by simp
    then show ?thesis
      unfolding facts(3) by (rule nth_wired)
  qed
  show "j < length (patch_shape (h r)) \<and> j < length (patch_normalisation (h r))"
    if "j < length algs"
  proof -
    have "j < length (scale_items (h r) ss)"
      using that facts(3) by simp
    then show ?thesis
      using facts(2) unfolding in_range_scale_items by blast
  qed
qed

text \<open>
  The constructor returns whenever both validators pass and the lists of patch shapes
  and of patch normalisations reach every position that the four zipped lists reach.
\<close>

lemma GaussNewtonAPSFitter_returns:
  assumes "ext_check_n_shape E h (new_object\<lparr>attr_model := Some r\<rparr>) n_shape = None"
    and "ext_check_sampling E sampling (n_scales (h r)) = Inr ss"
    and "min (length (appearance_models (h r)))
           (min (length (shape_models (h r)))
              (min (length (deformation_models (h r))) (length ss)))
         \<le> length (patch_shape (h r))"
    and "min (length (appearance_models (h r)))
           (min (length (shape_models (h r)))
              (min (length (deformation_models (h r))) (length ss)))
         \<le> length (patch_normalisation (h r))"
  shows "\<exists>f algs.
     GaussNewtonAPSFitter E h r cls n_shape udc sampling = Inr f \<and>
     attr_sampling f = Some ss \<and> attr_algorithms f = Some algs"
proof -
  have "GaussNewtonAPSFitter E h r cls n_shape udc sampling =
     Inr (new_object\<lparr>attr_model := Some r, attr_sampling := Some ss,
            attr_algorithms :=
              Some (map (wire (ext_mean E) (h r) cls udc) (scale_items (h r) ss))\<rparr>)"
    using GaussNewtonAPSFitter_succeeds [of E h r n_shape sampling ss cls udc] assms
    by (simp add: length_scale_items)
  then show ?thesis
    by simp
qed

section \<open>One algorithm per scale, in scale order\<close>

text \<open>
  Claim C1, as amended. Let the trained model have \<open>N\<close> scales, let its lists of
  appearance, shape and deformation models each have length \<open>N\<close>, let its lists of patch
  shapes and of patch normalisations have at least \<open>N\<close> entries, let the selection of
  shape components pass its validation, and let the sampling validator return \<open>N\<close>
  entries. Then the constructor returns a fitter whose list of algorithms has exactly
  \<open>N\<close> objects, and the object at position \<open>j\<close> is the solver class applied to the
  interface built from the appearance model, the shape model (wrapped), the deformation
  model, the sampling entry, the patch shape and the patch normalisation at position
  \<open>j\<close>, with the mean of that appearance model as template.
\<close>

theorem algorithms_per_scale:
  assumes "m = h r"
    and "length (appearance_models m) = n_scales m"
    and "length (shape_models m) = n_scales m"
    and "length (deformation_models m) = n_scales m"
    and "n_scales m \<le> length (patch_shape m)"
    and "n_scales m \<le> length (patch_normalisation m)"
    and "ext_check_n_shape E h (new_object\<lparr>attr_model := Some r\<rparr>) n_shape = None"
    and "ext_check_sampling E sampling (n_scales m) = Inr ss"
    and "length ss = n_scales m"
  shows "\<exists>f algs.
     GaussNewtonAPSFitter E h r cls n_shape udc sampling = Inr f \<and>
     attr_algorithms f = Some algs \<and>
     length algs = n_scales m \<and>
     (\<forall>j < n_scales m.
        algs ! j =
          Algorithm cls
            (GaussNewtonBaseInterface (appearance_models m ! j) (deformation_models m ! j)
               (if use_procrustes m then OrthoPDM (shape_models m ! j)
                else PDM (shape_models m ! j))
               udc (ext_mean E (appearance_models m ! j)) (ss ! j)
               (patch_shape m ! j) (patch_normalisation m ! j)))"
proof -
  let ?algs = "map (wire (ext_mean E) m cls udc) (scale_items m ss)"
  let ?f = "new_object\<lparr>attr_model := Some r, attr_sampling := Some ss,
              attr_algorithms := Some ?algs\<rparr>"
  have len: "length (scale_items m ss) = n_scales m"
    using assms(2-4,9) by (simp add: length_scale_items)
  have "GaussNewtonAPSFitter E h r cls n_shape udc sampling = Inr ?f"
    using GaussNewtonAPSFitter_succeeds [of E h r n_shape sampling ss cls udc] assms len
    by simp
  moreover have "attr_algorithms ?f = Some ?algs"
    by simp
  moreover have "length ?algs = n_scales m"
    using len by simp
  moreover have "\<forall>j < n_scales m.
      ?algs ! j =
        Algorithm cls
          (GaussNewtonBaseInterface (appearance_models m ! j) (deformation_models m ! j)
             (if use_procrustes m then OrthoPDM (shape_models m ! j)
              else PDM (shape_models m ! j))
             udc (ext_mean E (appearance_models m ! j)) (ss ! j)
             (patch_shape m ! j) (patch_normalisation m ! j))"
    using nth_wired [of _ m ss "ext_mean E" cls udc] len by simp
  ultimately show ?thesis
    by blast
qed

text \<open>
  The amended claim at the two-scale example: both validators pass, every list has two
  entries, and the second algorithm is built from the second entry of every list.
\<close>

theorem algorithms_per_scale_witness:
  "length (appearance_models example_model) = n_scales example_model \<and>
   length (shape_models example_model) = n_scales example_model \<and>
   length (deformation_models example_model) = n_scales example_model \<and>
   n_scales example_model \<le> length (patch_shape example_model) \<and>
   n_scales example_model \<le> length (patch_normalisation example_model) \<and>
   check_sampling (SamplingList [2, 3 :: nat]) (n_scales example_model) = Inr [2, 3] \<and>
   (\<exists>f algs.
      GaussNewtonAPSFitter example_externals example_store 0 7 None True
        (SamplingList [2, 3]) = Inr f \<and>
      attr_algorithms f = Some algs \<and> length algs = 2 \<and>
      algs ! 1 = Algorithm 7 (GaussNewtonBaseInterface 11 31 (OrthoPDM 21) True 111 3 41 51))"
proof -
  have m: "example_model = example_store 0"
    by (simp add: example_store_def)
  have hyps:
    "length (appearance_models example_model) = n_scales example_model"
    "length (shape_models example_model) = n_scales example_model"
    "length (deformation_models example_model) = n_scales example_model"
    "n_scales example_model \<le> length (patch_shape example_model)"
    "n_scales example_model \<le> length (patch_normalisation example_model)"
    by (simp_all add: example_model_def)
  have n: "ext_check_n_shape example_externals example_store
             (new_object\<lparr>attr_model := Some 0\<rparr>) None = None"
    by (simp add: example_externals_def accept_n_shape_def)
  have s: "ext_check_sampling example_externals (SamplingList [2, 3])
             (n_scales example_model) = Inr [2, 3]"
    by (simp add: example_externals_def check_sampling_def example_model_def)
  have l: "length [2, 3 :: nat] = n_scales example_model"
    by (simp add: example_model_def)
  obtain f algs where
    f: "GaussNewtonAPSFitter example_externals example_store 0 7 None True
          (SamplingList [2, 3]) = Inr f"
    and a: "attr_algorithms f = Some algs" "length algs = n_scales example_model"
    and nth: "\<forall>j < n_scales example_model.
        algs ! j =
          Algorithm 7
            (GaussNewtonBaseInterface (appearance_models example_model ! j)
               (deformation_models example_model ! j)
               (if use_procrustes example_model then OrthoPDM (shape_models example_model ! j)
                else PDM (shape_models example_model ! j))
               True (ext_mean example_externals (appearance_models example_model ! j))
               ([2, 3] ! j) (patch_shape example_model ! j)
               (patch_normalisation example_model ! j))"
    using algorithms_per_scale [OF m hyps n s l, of 7 True] by blast
  have "(1::nat) < n_scales example_model"
    by (simp add: example_model_def)
  with nth have
    "algs ! 1 = Algorithm 7 (GaussNewtonBaseInterface 11 31 (OrthoPDM 21) True 111 3 41 51)"
    by (simp add: example_model_def example_externals_def example_mean_def)
  moreover have "length algs = 2"
    using a(2) by (simp add: example_model_def)
  moreover have "check_sampling (SamplingList [2, 3 :: nat]) (n_scales example_model) = Inr [2, 3]"
    by (simp add: check_sampling_def example_model_def)
  ultimately show ?thesis
    using hyps f a(1) by blast
qed

text \<open>
  Claim C1 as first stated does not ask for patch shapes. At the model of reference 1,
  which has two scales and two models of each kind but no patch shape, the sampling list
  is accepted and the constructor raises \<open>IndexError\<close> in the first pass of the loop.
\<close>

theorem algorithms_per_scale_counterexample:
  "length (appearance_models (example_store 1)) = n_scales (example_store 1) \<and>
   length (shape_models (example_store 1)) = n_scales (example_store 1) \<and>
   length (deformation_models (example_store 1)) = n_scales (example_store 1) \<and>
   check_sampling (SamplingList [2, 3 :: nat]) (n_scales (example_store 1)) = Inr [2, 3] \<and>
   GaussNewtonAPSFitter example_externals example_store 1 7 None True
     (SamplingList [2, 3]) = Inl IndexError"
  by (simp add: GaussNewtonAPSFitter_def GaussNewtonAPSFitter_init_def instantiate_def
      set_up_def aps_def new_object_def example_externals_def example_store_def
      example_model_def example_mean_def accept_n_shape_def check_sampling_def getitem_def)

section \<open>What each interface receives\<close>

text \<open>
  Claim C2. Every fitter that the constructor returns has one algorithm for each
  position that the lists of appearance, shape and deformation models and the sampling
  list all reach, which is all \<open>N\<close> scales when each of the four has \<open>N\<close> entries. At
  every position \<open>j\<close> of that list the point-distribution-model wrapper inside the
  interface is \<open>OrthoPDM\<close> of the shape model at position \<open>j\<close> if the trained
  model's flag \<open>use_procrustes\<close> is true, and \<open>PDM\<close> of that shape model if the flag
  is false: with a true flag every wrapper is an \<open>OrthoPDM\<close>, with a false flag every
  one is a \<open>PDM\<close>. The constructor does return whenever both validators pass and the
  lists of patch shapes and patch normalisations reach those positions too.
\<close>

theorem pdm_variant_uniform:
  assumes "m = h r"
  shows
    "(\<forall>f ss algs.
        GaussNewtonAPSFitter E h r cls n_shape udc sampling = Inr f \<and>
        attr_sampling f = Some ss \<and> attr_algorithms f = Some algs \<longrightarrow>
        length algs =
          min (length (appearance_models m))
            (min (length (shape_models m)) (min (length (deformation_models m)) (length ss))) \<and>
        (length (appearance_models m) = n_scales m \<and> length (shape_models m) = n_scales m \<and>
         length (deformation_models m) = n_scales m \<and> length ss = n_scales m \<longrightarrow>
           length algs = n_scales m) \<and>
        (\<forall>j < length algs.
           iface_pdm (algorithm_interface (algs ! j)) =
             (if use_procrustes m then OrthoPDM (shape_models m ! j)
              else PDM (shape_models m ! j))) \<and>
        (use_procrustes m \<longrightarrow>
           (\<forall>a \<in> set algs. is_OrthoPDM (iface_pdm (algorithm_interface a)))) \<and>
        (\<not> use_procrustes m \<longrightarrow>
           (\<forall>a \<in> set algs. is_PDM (iface_pdm (algorithm_interface a))))) \<and>
     (\<forall>ss.
        ext_check_n_shape E h (new_object\<lparr>attr_model := Some r\<rparr>) n_shape = None \<and>
        ext_check_sampling E sampling (n_scales m) = Inr ss \<and>
        min (length (appearance_models m))
          (min (length (shape_models m)) (min (length (deformation_models m)) (length ss)))
          \<le> length (patch_shape m) \<and>
        min (length (appearance_models m))
          (min (length (shape_models m)) (min (length (deformation_models m)) (length ss)))
          \<le> length (patch_normalisation m) \<longrightarrow>
        (\<exists>f algs.
           GaussNewtonAPSFitter E h r cls n_shape udc sampling = Inr f \<and>
           attr_sampling f = Some ss \<and> attr_algorithms f = Some algs))"
proof (intro conjI allI impI)
  fix f ss algs
  assume run:
    "GaussNewtonAPSFitter E h r cls n_shape udc sampling = Inr f \<and>
     attr_sampling f = Some ss \<and> attr_algorithms f = Some algs"
  note nth = GaussNewtonAPSFitter_nth [of E h r cls n_shape udc sampling f ss algs]
  show len: "length algs =
      min (length (appearance_models m))
        (min (length (shape_models m)) (min (length (deformation_models m)) (length ss)))"
    using nth(1) run assms by simp
  show "length algs = n_scales m"
    if "length (appearance_models m) = n_scales m \<and> length (shape_models m) = n_scales m \<and>
        length (deformation_models m) = n_scales m \<and> length ss = n_scales m"
    using that len by simp
  have pdm: "iface_pdm (algorithm_interface (algs ! j)) =
      (if use_procrustes m then OrthoPDM (shape_models m ! j) else PDM (shape_models m ! j))"
    if "j < length algs" for j
    using nth(2) [of j] run assms that by simp
  show "iface_pdm (algorithm_interface (algs ! j)) =
      (if use_procrustes m then OrthoPDM (shape_models m ! j) else PDM (shape_models m ! j))"
    if "j < length algs" for j
    using pdm that .
  show "\<forall>a \<in> set algs. is_OrthoPDM (iface_pdm (algorithm_interface a))"
    if "use_procrustes m"
    using that pdm by (auto simp add: in_set_conv_nth)
  show "\<forall>a \<in> set algs. is_PDM (iface_pdm (algorithm_interface a))"
    if "\<not> use_procrustes m"
    using that pdm by (auto simp add: in_set_conv_nth)
next
  fix ss
  assume
    "ext_check_n_shape E h (new_object\<lparr>attr_model := Some r\<rparr>) n_shape = None \<and>
     ext_check_sampling E sampling (n_scales m) = Inr ss \<and>
     min (length (appearance_models m))
       (min (length (shape_models m)) (min (length (deformation_models m)) (length ss)))
       \<le> length (patch_shape m) \<and>
     min (length (appearance_models m))
       (min (length (shape_models m)) (min (length (deformation_models m)) (length ss)))
       \<le> length (patch_normalisation m)"
  then show "\<exists>f algs.
      GaussNewtonAPSFitter E h r cls n_shape udc sampling = Inr f \<and>
      attr_sampling f = Some ss \<and> attr_algorithms f = Some algs"
    using GaussNewtonAPSFitter_returns [of E h r n_shape sampling ss cls udc] assms by simp
qed

text \<open>
  The two-scale example with a true flag and the one with a false flag: in both the list
  has two algorithms, and each wraps the shape model of its own position.
\<close>

theorem pdm_variant_uniform_witness:
  "GaussNewtonAPSFitter example_externals example_store 0 7 None True (SamplingList [2, 3]) =
     Inr example_fitter \<and>
   use_procrustes (example_store 0) \<and>
   length example_algorithms = 2 \<and>
   iface_pdm (algorithm_interface (example_algorithms ! 0)) = OrthoPDM 20 \<and>
   iface_pdm (algorithm_interface (example_algorithms ! 1)) = OrthoPDM 21 \<and>
   GaussNewtonAPSFitter example_externals example_store 4 7 None True (SamplingList [2, 3]) =
     Inr example_plain_fitter \<and>
   \<not> use_procrustes (example_store 4) \<and>
   length example_plain_algorithms = 2 \<and>
   iface_pdm (algorithm_interface (example_plain_algorithms ! 0)) = PDM 20 \<and>
   iface_pdm (algorithm_interface (example_plain_algorithms ! 1)) = PDM 21"
proof -
  have flags: "use_procrustes (example_store 0)" "\<not> use_procrustes (example_store 4)"
    by (simp_all add: example_store_def example_model_def)
  have "length example_algorithms =
      min (length (appearance_models (example_store 0)))
        (min (length (shape_models (example_store 0)))
           (min (length (deformation_models (example_store 0))) (length [2, 3 :: nat]))) \<and>
    (\<forall>j < length example_algorithms.
       iface_pdm (algorithm_interface (example_algorithms ! j)) =
         (if use_procrustes (example_store 0) then OrthoPDM (shape_models (example_store 0) ! j)
          else PDM (shape_models (example_store 0) ! j)))"
    using pdm_variant_uniform
      [OF refl, of example_externals example_store 0 7 None True "SamplingList [2, 3]"]
      example_run example_fitter_attrs
    by blast
  then have a: "length example_algorithms = 2"
    and b: "\<forall>j < length example_algorithms.
       iface_pdm (algorithm_interface (example_algorithms ! j)) =
         OrthoPDM (shape_models (example_store 0) ! j)"
    using flags by (simp_all add: example_store_def example_model_def)
  have "iface_pdm (algorithm_interface (example_algorithms ! 0)) = OrthoPDM 20"
    and "iface_pdm (algorithm_interface (example_algorithms ! 1)) = OrthoPDM 21"
    using a b by (simp_all add: example_store_def example_model_def del: One_nat_def)
  moreover have "length example_plain_algorithms =
      min (length (appearance_models (example_store 4)))
        (min (length (shape_models (example_store 4)))
           (min (length (deformation_models (example_store 4))) (length [2, 3 :: nat]))) \<and>
    (\<forall>j < length example_plain_algorithms.
       iface_pdm (algorithm_interface (example_plain_algorithms ! j)) =
         (if use_procrustes (example_store 4) then OrthoPDM (shape_models (example_store 4) ! j)
          else PDM (shape_models (example_store 4) ! j)))"
    using pdm_variant_uniform
      [OF refl, of example_externals example_store 4 7 None True "SamplingList [2, 3]"]
      example_plain_run example_plain_fitter_attrs
    by blast
  then have c: "length example_plain_algorithms = 2"
    and d: "\<forall>j < length example_plain_algorithms.
       iface_pdm (algorithm_interface (example_plain_algorithms ! j)) =
         PDM (shape_models (example_store 4) ! j)"
    using flags by (simp_all add: example_store_def example_model_def)
  have "iface_pdm (algorithm_interface (example_plain_algorithms ! 0)) = PDM 20"
    and "iface_pdm (algorithm_interface (example_plain_algorithms ! 1)) = PDM 21"
    using c d by (simp_all add: example_store_def example_model_def del: One_nat_def)
  ultimately show ?thesis
    using example_run example_plain_run flags a c by blast
qed

text \<open>
  Claim C5. Every fitter that the constructor returns has one algorithm for each
  position that the lists of appearance, shape and deformation models and the sampling
  list all reach, which is every \<open>j\<close> from 0 to \<open>N - 1\<close> when each of the four has
  \<open>N\<close> entries. At every position \<open>j\<close> of that list the interface holds the sampling
  entry at position \<open>j\<close> of the list that the sampling validator returned, the patch
  shape at position \<open>j\<close> and the patch normalisation at position \<open>j\<close> of the trained
  model, and these three positions exist. The constructor does return whenever both
  validators pass and the lists of patch shapes and patch normalisations reach those
  positions.
\<close>

theorem interface_index_alignment:
  assumes "m = h r"
  shows
    "(\<forall>f ss algs.
        GaussNewtonAPSFitter E h r cls n_shape udc sampling = Inr f \<and>
        attr_sampling f = Some ss \<and> attr_algorithms f = Some algs \<longrightarrow>
        ext_check_sampling E sampling (n_scales m) = Inr ss \<and>
        length algs =
          min (length (appearance_models m))
            (min (length (shape_models m)) (min (length (deformation_models m)) (length ss))) \<and>
        (length (appearance_models m) = n_scales m \<and> length (shape_models m) = n_scales m \<and>
         length (deformation_models m) = n_scales m \<and> length ss = n_scales m \<longrightarrow>
           length algs = n_scales m) \<and>
        (\<forall>j < length algs.
           j < length ss \<and> j < length (patch_shape m) \<and>
           j < length (patch_normalisation m) \<and>
           iface_sampling (algorithm_interface (algs ! j)) = ss ! j \<and>
           iface_patch_shape (algorithm_interface (algs ! j)) = patch_shape m ! j \<and>
           iface_patch_normalisation (algorithm_interface (algs ! j)) =
             patch_normalisation m ! j)) \<and>
     (\<forall>ss.
        ext_check_n_shape E h (new_object\<lparr>attr_model := Some r\<rparr>) n_shape = None \<and>
        ext_check_sampling E sampling (n_scales m) = Inr ss \<and>
        min (length (appearance_models m))
          (min (length (shape_models m)) (min (length (deformation_models m)) (length ss)))
          \<le> length (patch_shape m) \<and>
        min (length (appearance_models m))
          (min (length (shape_models m)) (min (length (deformation_models m)) (length ss)))
          \<le> length (patch_normalisation m) \<longrightarrow>
        (\<exists>f algs.
           GaussNewtonAPSFitter E h r cls n_shape udc sampling = Inr f \<and>
           attr_sampling f = Some ss \<and> attr_algorithms f = Some algs))"
proof (intro conjI allI impI)
  fix f ss algs
  assume run:
    "GaussNewtonAPSFitter E h r cls n_shape udc sampling = Inr f \<and>
     attr_sampling f = Some ss \<and> attr_algorithms f = Some algs"
  note nth = GaussNewtonAPSFitter_nth [of E h r cls n_shape udc sampling f ss algs]
  show "ext_check_sampling E sampling (n_scales m) = Inr ss"
    using GaussNewtonAPSFitter_algorithms(1) [of E h r cls n_shape udc sampling f ss algs]
      run assms by simp
  show len: "length algs =
      min (length (appearance_models m))
        (min (length (shape_models m)) (min (length (deformation_models m)) (length ss)))"
    using nth(1) run assms by simp
  show "length algs = n_scales m"
    if "length (appearance_models m) = n_scales m \<and> length (shape_models m) = n_scales m \<and>
        length (deformation_models m) = n_scales m \<and> length ss = n_scales m"
    using that len by simp
  fix j
  assume j: "j < length algs"
  show "j < length ss"
    using j len by simp
  show "j < length (patch_shape m)" and "j < length (patch_normalisation m)"
    using nth(3) [of j] run assms j by simp_all
  show "iface_sampling (algorithm_interface (algs ! j)) = ss ! j"
    and "iface_patch_shape (algorithm_interface (algs ! j)) = patch_shape m ! j"
    and "iface_patch_normalisation (algorithm_interface (algs ! j)) =
           patch_normalisation m ! j"
    using nth(2) [of j] run assms j by simp_all
next
  fix ss
  assume
    "ext_check_n_shape E h (new_object\<lparr>attr_model := Some r\<rparr>) n_shape = None \<and>
     ext_check_sampling E sampling (n_scales m) = Inr ss \<and>
     min (length (appearance_models m))
       (min (length (shape_models m)) (min (length (deformation_models m)) (length ss)))
       \<le> length (patch_shape m) \<and>
     min (length (appearance_models m))
       (min (length (shape_models m)) (min (length (deformation_models m)) (length ss)))
       \<le> length (patch_normalisation m)"
  then show "\<exists>f algs.
      GaussNewtonAPSFitter E h r cls n_shape udc sampling = Inr f \<and>
      attr_sampling f = Some ss \<and> attr_algorithms f = Some algs"
    using GaussNewtonAPSFitter_returns [of E h r n_shape sampling ss cls udc] assms by simp
qed

text \<open>
  Both two-scale examples: the list has two algorithms, the first interface holds the
  first sampling entry, patch shape and patch normalisation, the second the second ones.
\<close>

theorem interface_index_alignment_witness:
  "GaussNewtonAPSFitter example_externals example_store 0 7 None True (SamplingList [2, 3]) =
     Inr example_fitter \<and>
   length example_algorithms = 2 \<and>
   iface_sampling (algorithm_interface (example_algorithms ! 0)) = 2 \<and>
   iface_patch_shape (algorithm_interface (example_algorithms ! 0)) = 40 \<and>
   iface_patch_normalisation (algorithm_interface (example_algorithms ! 0)) = 50 \<and>
   iface_sampling (algorithm_interface (example_algorithms ! 1)) = 3 \<and>
   iface_patch_shape (algorithm_interface (example_algorithms ! 1)) = 41 \<and>
   iface_patch_normalisation (algorithm_interface (example_algorithms ! 1)) = 51 \<and>
   GaussNewtonAPSFitter example_externals example_store 4 7 None True (SamplingList [2, 3]) =
     Inr example_plain_fitter \<and>
   length example_plain_algorithms = 2 \<and>
   iface_sampling (algorithm_interface (example_plain_algorithms ! 1)) = 3 \<and>
   iface_patch_shape (algorithm_interface (example_plain_algorithms ! 1)) = 41 \<and>
   iface_patch_normalisation (algorithm_interface (example_plain_algorithms ! 1)) = 51"
proof -
  have "length example_algorithms =
      min (length (appearance_models (example_store 0)))
        (min (length (shape_models (example_store 0)))
           (min (length (deformation_models (example_store 0))) (length [2, 3 :: nat]))) \<and>
    (\<forall>j < length example_algorithms.
       iface_sampling (algorithm_interface (example_algorithms ! j)) = [2, 3] ! j \<and>
       iface_patch_shape (algorithm_interface (example_algorithms ! j)) =
         patch_shape (example_store 0) ! j \<and>
       iface_patch_normalisation (algorithm_interface (example_algorithms ! j)) =
         patch_normalisation (example_store 0) ! j)"
    using interface_index_alignment
      [OF refl, of example_externals example_store 0 7 None True "SamplingList [2, 3]"]
      example_run example_fitter_attrs
    by blast
  then have a: "length example_algorithms = 2"
    and b: "\<forall>j < length example_algorithms.
       iface_sampling (algorithm_interface (example_algorithms ! j)) = [2, 3] ! j \<and>
       iface_patch_shape (algorithm_interface (example_algorithms ! j)) =
         patch_shape (example_store 0) ! j \<and>
       iface_patch_normalisation (algorithm_interface (example_algorithms ! j)) =
         patch_normalisation (example_store 0) ! j"
    by (simp_all add: example_store_def example_model_def)
  have "iface_sampling (algorithm_interface (example_algorithms ! 0)) = 2 \<and>
     iface_patch_shape (algorithm_interface (example_algorithms ! 0)) = 40 \<and>
     iface_patch_normalisation (algorithm_interface (example_algorithms ! 0)) = 50"
    and "iface_sampling (algorithm_interface (example_algorithms ! 1)) = 3 \<and>
     iface_patch_shape (algorithm_interface (example_algorithms ! 1)) = 41 \<and>
     iface_patch_normalisation (algorithm_interface (example_algorithms ! 1)) = 51"
    using a b by (simp_all add: example_store_def example_model_def del: One_nat_def)
  moreover have "length example_plain_algorithms =
      min (length (appearance_models (example_store 4)))
        (min (length (shape_models (example_store 4)))
           (min (length (deformation_models (example_store 4))) (length [2, 3 :: nat]))) \<and>
    (\<forall>j < length example_plain_algorithms.
       iface_sampling (algorithm_interface (example_plain_algorithms ! j)) = [2, 3] ! j \<and>
       iface_patch_shape (algorithm_interface (example_plain_algorithms ! j)) =
         patch_shape (example_store 4) ! j \<and>
       iface_patch_normalisation (algorithm_interface (example_plain_algorithms ! j)) =
         patch_normalisation (example_store 4) ! j)"
    using interface_index_alignment
      [OF refl, of example_externals example_store 4 7 None True "SamplingList [2, 3]"]
      example_plain_run example_plain_fitter_attrs
    by blast
  then have c: "length example_plain_algorithms = 2"
    and d: "\<forall>j < length example_plain_algorithms.
       iface_sampling (algorithm_interface (example_plain_algorithms ! j)) = [2, 3] ! j \<and>
       iface_patch_shape (algorithm_interface (example_plain_algorithms ! j)) =
         patch_shape (example_store 4) ! j \<and>
       iface_patch_normalisation (algorithm_interface (example_plain_algorithms ! j)) =
         patch_normalisation (example_store 4) ! j"
    by (simp_all add: example_store_def example_model_def)
  have "iface_sampling (algorithm_interface (example_plain_algorithms ! 1)) = 3 \<and>
     iface_patch_shape (algorithm_interface (example_plain_algorithms ! 1)) = 41 \<and>
     iface_patch_normalisation (algorithm_interface (example_plain_algorithms ! 1)) = 51"
    using c d by (simp add: example_store_def example_model_def del: One_nat_def)
  ultimately show ?thesis
    using example_run example_plain_run a c by blast
qed

text \<open>
  Claim C7. Every fitter that the constructor returns has one algorithm for each
  position that the lists of appearance, shape and deformation models and the sampling
  list all reach, which is every scale when each of the four has \<open>N\<close> entries. At
  every position \<open>j\<close> of that list the template inside the interface is the result of
  \<open>mean()\<close> on the appearance model at position \<open>j\<close> of the trained model, which is
  also the appearance model that the same interface holds. The constructor does return
  whenever both validators pass and the lists of patch shapes and patch normalisations
  reach those positions.
\<close>

theorem template_is_mean:
  assumes "m = h r"
  shows
    "(\<forall>f ss algs.
        GaussNewtonAPSFitter E h r cls n_shape udc sampling = Inr f \<and>
        attr_sampling f = Some ss \<and> attr_algorithms f = Some algs \<longrightarrow>
        length algs =
          min (length (appearance_models m))
            (min (length (shape_models m)) (min (length (deformation_models m)) (length ss))) \<and>
        (length (appearance_models m) = n_scales m \<and> length (shape_models m) = n_scales m \<and>
         length (deformation_models m) = n_scales m \<and> length ss = n_scales m \<longrightarrow>
           length algs = n_scales m) \<and>
        (\<forall>j < length algs.
           j < length (appearance_models m) \<and>
           iface_appearance_model (algorithm_interface (algs ! j)) =
             appearance_models m ! j \<and>
           iface_template (algorithm_interface (algs ! j)) =
             ext_mean E (appearance_models m ! j))) \<and>
     (\<forall>ss.
        ext_check_n_shape E h (new_object\<lparr>attr_model := Some r\<rparr>) n_shape = None \<and>
        ext_check_sampling E sampling (n_scales m) = Inr ss \<and>
        min (length (appearance_models m))
          (min (length (shape_models m)) (min (length (deformation_models m)) (length ss)))
          \<le> length (patch_shape m) \<and>
        min (length (appearance_models m))
          (min (length (shape_models m)) (min (length (deformation_models m)) (length ss)))
          \<le> length (patch_normalisation m) \<longrightarrow>
        (\<exists>f algs.
           GaussNewtonAPSFitter E h r cls n_shape udc sampling = Inr f \<and>
           attr_sampling f = Some ss \<and> attr_algorithms f = Some algs))"
proof (intro conjI allI impI)
  fix f ss algs
  assume run:
    "GaussNewtonAPSFitter E h r cls n_shape udc sampling = Inr f \<and>
     attr_sampling f = Some ss \<and> attr_algorithms f = Some algs"
  note nth = GaussNewtonAPSFitter_nth [of E h r cls n_shape udc sampling f ss algs]
  show len: "length algs =
      min (length (appearance_models m))
        (min (length (shape_models m)) (min (length (deformation_models m)) (length ss)))"
    using nth(1) run assms by simp
  show "length algs = n_scales m"
    if "length (appearance_models m) = n_scales m \<and> length (shape_models m) = n_scales m \<and>
        length (deformation_models m) = n_scales m \<and> length ss = n_scales m"
    using that len by simp
  fix j
  assume j: "j < length algs"
  show "j < length (appearance_models m)"
    using j len by simp
  show "iface_appearance_model (algorithm_interface (algs ! j)) = appearance_models m ! j"
    and "iface_template (algorithm_interface (algs ! j)) =
           ext_mean E (appearance_models m ! j)"
    using nth(2) [of j] run assms j by simp_all
next
  fix ss
  assume
    "ext_check_n_shape E h (new_object\<lparr>attr_model := Some r\<rparr>) n_shape = None \<and>
     ext_check_sampling E sampling (n_scales m) = Inr ss \<and>
     min (length (appearance_models m))
       (min (length (shape_models m)) (min (length (deformation_models m)) (length ss)))
       \<le> length (patch_shape m) \<and>
     min (length (appearance_models m))
       (min (length (shape_models m)) (min (length (deformation_models m)) (length ss)))
       \<le> length (patch_normalisation m)"
  then show "\<exists>f algs.
      GaussNewtonAPSFitter E h r cls n_shape udc sampling = Inr f \<and>
      attr_sampling f = Some ss \<and> attr_algorithms f = Some algs"
    using GaussNewtonAPSFitter_returns [of E h r n_shape sampling ss cls udc] assms by simp
qed

text \<open>
  Both two-scale examples, where \<open>mean()\<close> adds 100: the templates are 110 and 111,
  the means of the appearance models 10 and 11.
\<close>

theorem template_is_mean_witness:
  "GaussNewtonAPSFitter example_externals example_store 0 7 None True (SamplingList [2, 3]) =
     Inr example_fitter \<and>
   length example_algorithms = 2 \<and>
   example_mean 10 = 110 \<and> example_mean 11 = 111 \<and>
   iface_template (algorithm_interface (example_algorithms ! 0)) = 110 \<and>
   iface_template (algorithm_interface (example_algorithms ! 1)) = 111 \<and>
   GaussNewtonAPSFitter example_externals example_store 4 7 None True (SamplingList [2, 3]) =
     Inr example_plain_fitter \<and>
   length example_plain_algorithms = 2 \<and>
   iface_template (algorithm_interface (example_plain_algorithms ! 0)) = 110 \<and>
   iface_template (algorithm_interface (example_plain_algorithms ! 1)) = 111"
proof -
  have means: "example_mean 10 = 110" "example_mean 11 = 111"
    by (simp_all add: example_mean_def)
  have "length example_algorithms =
      min (length (appearance_models (example_store 0)))
        (min (length (shape_models (example_store 0)))
           (min (length (deformation_models (example_store 0))) (length [2, 3 :: nat]))) \<and>
    (\<forall>j < length example_algorithms.
       iface_template (algorithm_interface (example_algorithms ! j)) =
         ext_mean example_externals (appearance_models (example_store 0) ! j))"
    using template_is_mean
      [OF refl, of example_externals example_store 0 7 None True "SamplingList [2, 3]"]
      example_run example_fitter_attrs
    by blast
  then have a: "length example_algorithms = 2"
    and b: "\<forall>j < length example_algorithms.
       iface_template (algorithm_interface (example_algorithms ! j)) =
         ext_mean example_externals (appearance_models (example_store 0) ! j)"
    by (simp_all add: example_store_def example_model_def)
  have "iface_template (algorithm_interface (example_algorithms ! 0)) = 110"
    and "iface_template (algorithm_interface (example_algorithms ! 1)) = 111"
    using a b
    by (simp_all add: example_store_def example_model_def example_externals_def
        example_mean_def del: One_nat_def)
  moreover have "length example_plain_algorithms =
      min (length (appearance_models (example_store 4)))
        (min (length (shape_models (example_store 4)))
           (min (length (deformation_models (example_store 4))) (length [2, 3 :: nat]))) \<and>
    (\<forall>j < length example_plain_algorithms.
       iface_template (algorithm_interface (example_plain_algorithms ! j)) =
         ext_mean example_externals (appearance_models (example_store 4) ! j))"
    using template_is_mean
      [OF refl, of example_externals example_store 4 7 None True "SamplingList [2, 3]"]
      example_plain_run example_plain_fitter_attrs
    by blast
  then have c: "length example_plain_algorithms = 2"
    and d: "\<forall>j < length example_plain_algorithms.
       iface_template (algorithm_interface (example_plain_algorithms ! j)) =
         ext_mean example_externals (appearance_models (example_store 4) ! j)"
    by (simp_all add: example_store_def example_model_def)
  have "iface_template (algorithm_interface (example_plain_algorithms ! 0)) = 110"
    and "iface_template (algorithm_interface (example_plain_algorithms ! 1)) = 111"
    using c d
    by (simp_all add: example_store_def example_model_def example_externals_def
        example_mean_def del: One_nat_def)
  ultimately show ?thesis
    using example_run example_plain_run a c means by blast
qed

section \<open>Outcomes of the construction\<close>

text \<open>
  Claim C3, as amended. Calling the class either raises, and then the caller receives the
  exception that \<open>__init__\<close> raised and no object, or it returns a fitter in which the
  trained model passed in is stored, the list returned by the sampling validator is
  stored, and the list of algorithms holds one wired algorithm for every position that
  the lists of appearance, shape and deformation models and the sampling list all reach:
  all \<open>N\<close> of them when each of the four lists has \<open>N\<close> entries.
\<close>

theorem construction_all_or_nothing:
  "(\<exists>e self'.
      GaussNewtonAPSFitter_init E h new_object r cls n_shape udc sampling = (self', Some e) \<and>
      GaussNewtonAPSFitter E h r cls n_shape udc sampling = Inl e) \<or>
   (\<exists>f ss algs.
      GaussNewtonAPSFitter_init E h new_object r cls n_shape udc sampling = (f, None) \<and>
      GaussNewtonAPSFitter E h r cls n_shape udc sampling = Inr f \<and>
      aps f = Inr r \<and>
      ext_check_sampling E sampling (n_scales (h r)) = Inr ss \<and>
      attr_sampling f = Some ss \<and>
      attr_algorithms f = Some algs \<and>
      algs = map (wire (ext_mean E) (h r) cls udc) (scale_items (h r) ss) \<and>
      length algs =
        min (length (appearance_models (h r)))
          (min (length (shape_models (h r)))
             (min (length (deformation_models (h r))) (length ss))))"
proof (cases "GaussNewtonAPSFitter_init E h new_object r cls n_shape udc sampling")
  case (Pair self' exc)
  show ?thesis
  proof (cases exc)
    case (Some e)
    then show ?thesis
      using Pair by (simp add: GaussNewtonAPSFitter_def instantiate_def)
  next
    case None
    then have run: "GaussNewtonAPSFitter E h r cls n_shape udc sampling = Inr self'"
      using Pair by (simp add: GaussNewtonAPSFitter_def instantiate_def)
    then obtain ss where
      ss: "ext_check_sampling E sampling (n_scales (h r)) = Inr ss"
      and f: "self' = new_object\<lparr>attr_model := Some r, attr_sampling := Some ss,
                attr_algorithms :=
                  Some (map (wire (ext_mean E) (h r) cls udc) (scale_items (h r) ss))\<rparr>"
      unfolding GaussNewtonAPSFitter_Inr by blast
    have "aps self' = Inr r"
      by (simp add: f aps_def)
    moreover have "attr_sampling self' = Some ss"
      by (simp add: f)
    moreover have "attr_algorithms self' =
        Some (map (wire (ext_mean E) (h r) cls udc) (scale_items (h r) ss))"
      by (simp add: f)
    ultimately show ?thesis
      using Pair None run ss by (simp add: length_scale_items)
  qed
qed

theorem construction_all_or_nothing_witness:
  "GaussNewtonAPSFitter example_externals example_store 0 7 None True (SamplingList [2, 3]) =
     Inr example_fitter \<and>
   GaussNewtonAPSFitter_init example_externals example_store new_object 0 7 None True
     (SamplingList [2, 3]) = (example_fitter, None) \<and>
   aps example_fitter = Inr 0"
proof -
  have "GaussNewtonAPSFitter_init example_externals example_store new_object 0 7 None True
     (SamplingList [2, 3]) = (example_fitter, None) \<and> aps example_fitter = Inr 0"
    using construction_all_or_nothing
      [of example_externals example_store 0 7 None True "SamplingList [2, 3]"]
    by (auto simp add: example_run)
  then show ?thesis
    using example_run by blast
qed

text \<open>
  Claim C3 as first stated promises all \<open>N\<close> algorithms whenever an object is returned.
  The model of reference 2 has two scales and one appearance model: the constructor
  returns a fitter with a single algorithm.
\<close>

theorem construction_all_or_nothing_counterexample:
  "n_scales (example_store 2) = 2 \<and>
   GaussNewtonAPSFitter example_externals example_store 2 7 None True (SamplingList [2, 3]) =
     Inr \<lparr>attr_model = Some 2, attr_sampling = Some [2, 3],
          attr_algorithms =
            Some [Algorithm 7 (GaussNewtonBaseInterface 10 30 (OrthoPDM 20) True 110 2 40 50)],
          attr_scales = None, attr_reference_shape = None, attr_holistic_features = None\<rparr>"
  by (simp add: GaussNewtonAPSFitter_def GaussNewtonAPSFitter_init_def instantiate_def
      set_up_def aps_def new_object_def example_externals_def example_store_def
      example_model_def example_mean_def accept_n_shape_def check_sampling_def getitem_def)

text \<open>
  Claim C9, as amended. Let one of the lists of appearance, shape or deformation models
  be shorter than the scale count \<open>N\<close>, let the sampling validator return \<open>N\<close>
  entries, let the selection of shape components pass its validation, and let the lists
  of patch shapes and of patch normalisations have at least as many entries as the
  shortest of the three model lists. Then the constructor raises nothing and returns a
  fitter whose list of algorithms is as long as that shortest list, fewer than \<open>N\<close>.
\<close>

theorem short_model_lists_truncate:
  assumes "m = h r"
    and "length (appearance_models m) < n_scales m \<or>
         length (shape_models m) < n_scales m \<or>
         length (deformation_models m) < n_scales m"
    and "ext_check_n_shape E h (new_object\<lparr>attr_model := Some r\<rparr>) n_shape = None"
    and "ext_check_sampling E sampling (n_scales m) = Inr ss"
    and "length ss = n_scales m"
    and "k = min (length (appearance_models m))
               (min (length (shape_models m)) (length (deformation_models m)))"
    and "k \<le> length (patch_shape m)"
    and "k \<le> length (patch_normalisation m)"
  shows "\<exists>f algs.
     GaussNewtonAPSFitter E h r cls n_shape udc sampling = Inr f \<and>
     attr_algorithms f = Some algs \<and>
     length algs = k \<and>
     length algs =
       min (length (appearance_models m))
         (min (length (shape_models m)) (min (length (deformation_models m)) (length ss))) \<and>
     length algs < n_scales m"
proof -
  let ?algs = "map (wire (ext_mean E) m cls udc) (scale_items m ss)"
  let ?f = "new_object\<lparr>attr_model := Some r, attr_sampling := Some ss,
              attr_algorithms := Some ?algs\<rparr>"
  have k: "length (scale_items m ss) = k" and lt: "k < n_scales m"
    using assms(2,5,6) by (auto simp add: length_scale_items)
  have "GaussNewtonAPSFitter E h r cls n_shape udc sampling = Inr ?f"
    using GaussNewtonAPSFitter_succeeds [of E h r n_shape sampling ss cls udc] assms k
    by simp
  moreover have "attr_algorithms ?f = Some ?algs"
    by simp
  moreover have "length ?algs = k"
    using k by simp
  moreover have "length ?algs =
       min (length (appearance_models m))
         (min (length (shape_models m)) (min (length (deformation_models m)) (length ss)))"
    by (simp add: length_scale_items)
  ultimately show ?thesis
    using lt by blast
qed

theorem short_model_lists_truncate_witness:
  "length (appearance_models (example_store 2)) < n_scales (example_store 2) \<and>
   check_sampling (SamplingList [2, 3 :: nat]) (n_scales (example_store 2)) = Inr [2, 3] \<and>
   1 \<le> length (patch_shape (example_store 2)) \<and>
   1 \<le> length (patch_normalisation (example_store 2)) \<and>
   (\<exists>f algs.
      GaussNewtonAPSFitter example_externals example_store 2 7 None True
        (SamplingList [2, 3]) = Inr f \<and>
      attr_algorithms f = Some algs \<and> length algs = 1 \<and>
      length algs < n_scales (example_store 2))"
proof -
  have short:
    "length (appearance_models (example_store 2)) < n_scales (example_store 2) \<or>
     length (shape_models (example_store 2)) < n_scales (example_store 2) \<or>
     length (deformation_models (example_store 2)) < n_scales (example_store 2)"
    and short1: "length (appearance_models (example_store 2)) < n_scales (example_store 2)"
    by (simp_all add: example_store_def example_model_def)
  have n: "ext_check_n_shape example_externals example_store
             (new_object\<lparr>attr_model := Some 2\<rparr>) None = None"
    by (simp add: example_externals_def accept_n_shape_def)
  have s: "ext_check_sampling example_externals (SamplingList [2, 3])
             (n_scales (example_store 2)) = Inr [2, 3]"
    and s': "check_sampling (SamplingList [2, 3 :: nat]) (n_scales (example_store 2)) =
               Inr [2, 3]"
    by (simp_all add: example_externals_def check_sampling_def example_store_def
        example_model_def)
  have l: "length [2, 3 :: nat] = n_scales (example_store 2)"
    by (simp add: example_store_def example_model_def)
  have k: "1 = min (length (appearance_models (example_store 2)))
                 (min (length (shape_models (example_store 2)))
                    (length (deformation_models (example_store 2))))"
    by (simp add: example_store_def example_model_def)
  have p: "1 \<le> length (patch_shape (example_store 2))"
    "1 \<le> length (patch_normalisation (example_store 2))"
    by (simp_all add: example_store_def example_model_def)
  have "\<exists>f algs.
      GaussNewtonAPSFitter example_externals example_store 2 7 None True
        (SamplingList [2, 3]) = Inr f \<and>
      attr_algorithms f = Some algs \<and> length algs = 1 \<and>
      length algs < n_scales (example_store 2)"
    using short_model_lists_truncate [OF refl short n s l k p, of 7 True] by blast
  then show ?thesis
    using short1 s' p by blast
qed

text \<open>
  Claim C9 as first stated does not ask for patch shapes. The model of reference 3 has
  two scales, one appearance model and no patch shape: the sampling list is accepted and
  the constructor raises \<open>IndexError\<close> in the loop.
\<close>

theorem short_model_lists_truncate_counterexample:
  "length (appearance_models (example_store 3)) < n_scales (example_store 3) \<and>
   check_sampling (SamplingList [2, 3 :: nat]) (n_scales (example_store 3)) = Inr [2, 3] \<and>
   GaussNewtonAPSFitter example_externals example_store 3 7 None True
     (SamplingList [2, 3]) = Inl IndexError"
  by (simp add: GaussNewtonAPSFitter_def GaussNewtonAPSFitter_init_def instantiate_def
      set_up_def aps_def new_object_def example_externals_def example_store_def
      example_model_def example_mean_def accept_n_shape_def check_sampling_def getitem_def)

section \<open>The sampling validation step\<close>





section \<open>The accessor and the result of a fit\<close>

lemma APSFitter_eq:
  "APSFitter h r algorithms =
     Inr (new_object\<lparr>attr_model := Some r,
            attr_scales := Some (scales (h r)),
            attr_reference_shape := Some (reference_shape (h r)),
            attr_holistic_features := Some (holistic_features (h r)),
            attr_algorithms := Some algorithms\<rparr>)"
  by (simp add: APSFitter_def APSFitter_init_def MultiScaleParametricFitter_init_def
      instantiate_def Let_def)

lemma example_base_run:
  "APSFitter example_store 0 example_algorithms = Inr example_base_fitter"
  by (simp add: APSFitter_eq new_object_def example_base_fitter_def example_store_def
      example_model_def)

text \<open>
  Claim C6. The accessor \<open>aps\<close> of a fitter returns the reference that was passed to the
  constructor, the same address and not another object with equal contents: for a fitter
  of the base class, whose construction always returns, and for every fitter that the
  Gauss-Newton constructor returns. Packaging a result does not change what the accessor
  returns.
\<close>

theorem aps_returns_constructed_model:
  "(\<exists>f. APSFitter h r algorithms = Inr f \<and> aps f = Inr r) \<and>
   (\<forall>f. GaussNewtonAPSFitter E h r cls n_shape udc sampling = Inr f \<longrightarrow> aps f = Inr r) \<and>
   (\<forall>f. aps (fst (fitter_result f image' results affine_transforms scale_transforms
                    gt_shape)) = aps f)"
proof -
  have "\<exists>f. APSFitter h r algorithms = Inr f \<and> aps f = Inr r"
    by (simp add: APSFitter_eq aps_def)
  moreover have "aps f = Inr r"
    if "GaussNewtonAPSFitter E h r cls n_shape udc sampling = Inr f" for f
    using that unfolding GaussNewtonAPSFitter_Inr by (auto simp add: aps_def)
  moreover have
    "aps (fst (fitter_result f image' results affine_transforms scale_transforms gt_shape)) =
       aps f" for f
    by (simp add: fitter_result_def split: option.splits)
  ultimately show ?thesis
    by blast
qed

theorem aps_returns_constructed_model_witness:
  "APSFitter example_store 0 example_algorithms = Inr example_base_fitter \<and>
   aps example_base_fitter = Inr 0 \<and>
   GaussNewtonAPSFitter example_externals example_store 0 7 None True (SamplingList [2, 3]) =
     Inr example_fitter \<and>
   aps example_fitter = Inr 0"
proof -
  note fact = aps_returns_constructed_model
    [of example_store 0 example_algorithms example_externals 7 None True
      "SamplingList [2, 3]" 0 "[]" "[]" "[]" None]
  have "aps example_base_fitter = Inr 0"
    using fact example_base_run by auto
  moreover have "aps example_fitter = Inr 0"
    using fact example_run by blast
  ultimately show ?thesis
    using example_base_run example_run by blast
qed

text \<open>
  On a fitter that has stored scales, \<open>_fitter_result\<close> returns one \<open>APSResult\<close>
  built from exactly its five inputs and the stored scales, whatever the lengths of the
  three lists, and leaves the fitter as it was.
\<close>

lemma fitter_result_packages_inputs:
  assumes "attr_scales self = Some sc"
  shows "fitter_result self image' results affine_transforms scale_transforms gt_shape =
     (self, Inr (APSResult results sc affine_transforms scale_transforms image' gt_shape))"
  using assms by (simp add: fitter_result_def)

lemma fitter_result_frame:
  "fst (fitter_result self image' results affine_transforms scale_transforms gt_shape) = self"
  by (simp add: fitter_result_def split: option.splits)




section \<open>What the Gauss-Newton constructor assigns\<close>

text \<open>
  Claim C10. \<open>GaussNewtonAPSFitter.__init__\<close> does not run the constructor of the base
  class. Whatever object it starts from and however it ends, it leaves the three
  attributes kept by the orchestration base as they were and stores the model; a fitter
  that it returns has the model, the normalised sampling list and a list of algorithms,
  and no scales, no reference shape and no holistic features. The constructor of the
  base class, on the same model, stores all three.
\<close>

theorem gauss_newton_init_skips_base:
  "(\<forall>self' exc.
      GaussNewtonAPSFitter_init E h self r cls n_shape udc sampling = (self', exc) \<longrightarrow>
      attr_model self' = Some r \<and>
      attr_scales self' = attr_scales self \<and>
      attr_reference_shape self' = attr_reference_shape self \<and>
      attr_holistic_features self' = attr_holistic_features self) \<and>
   (\<forall>f. GaussNewtonAPSFitter E h r cls n_shape udc sampling = Inr f \<longrightarrow>
      attr_model f = Some r \<and>
      (\<exists>ss. ext_check_sampling E sampling (n_scales (h r)) = Inr ss \<and>
            attr_sampling f = Some ss) \<and>
      (\<exists>algs. attr_algorithms f = Some algs) \<and>
      attr_scales f = None \<and>
      attr_reference_shape f = None \<and>
      attr_holistic_features f = None) \<and>
   (\<exists>g. APSFitter h r algorithms = Inr g \<and>
      attr_scales g = Some (scales (h r)) \<and>
      attr_reference_shape g = Some (reference_shape (h r)) \<and>
      attr_holistic_features g = Some (holistic_features (h r)))"
proof -
  have frame:
    "attr_model self' = Some r \<and>
     attr_scales self' = attr_scales self \<and>
     attr_reference_shape self' = attr_reference_shape self \<and>
     attr_holistic_features self' = attr_holistic_features self"
    if "GaussNewtonAPSFitter_init E h self r cls n_shape udc sampling = (self', exc)"
    for self' exc
    using that unfolding init_eq by (auto split: option.splits sum.splits)
  have built:
    "attr_model f = Some r \<and>
     (\<exists>ss. ext_check_sampling E sampling (n_scales (h r)) = Inr ss \<and>
           attr_sampling f = Some ss) \<and>
     (\<exists>algs. attr_algorithms f = Some algs) \<and>
     attr_scales f = None \<and>
     attr_reference_shape f = None \<and>
     attr_holistic_features f = None"
    if "GaussNewtonAPSFitter E h r cls n_shape udc sampling = Inr f" for f
    using that unfolding GaussNewtonAPSFitter_Inr by (auto simp add: new_object_def)
  have base:
    "\<exists>g. APSFitter h r algorithms = Inr g \<and>
      attr_scales g = Some (scales (h r)) \<and>
      attr_reference_shape g = Some (reference_shape (h r)) \<and>
      attr_holistic_features g = Some (holistic_features (h r))"
    by (simp add: APSFitter_eq)
  show ?thesis
    using frame built base by blast
qed

theorem gauss_newton_init_skips_base_witness:
  "GaussNewtonAPSFitter example_externals example_store 0 7 None True (SamplingList [2, 3]) =
     Inr example_fitter \<and>
   attr_model example_fitter = Some 0 \<and>
   attr_scales example_fitter = None \<and>
   attr_reference_shape example_fitter = None \<and>
   attr_holistic_features example_fitter = None \<and>
   APSFitter example_store 0 example_algorithms = Inr example_base_fitter \<and>
   attr_scales example_base_fitter = Some (scales (example_store 0))"
proof -
  note fact = gauss_newton_init_skips_base
    [of example_externals example_store new_object 0 7 None True "SamplingList [2, 3]"
      example_algorithms]
  have "attr_model example_fitter = Some 0 \<and>
     attr_scales example_fitter = None \<and>
     attr_reference_shape example_fitter = None \<and>
     attr_holistic_features example_fitter = None"
    using fact example_run by blast
  moreover have "attr_scales example_base_fitter = Some (scales (example_store 0))"
    using fact example_base_run by auto
  ultimately show ?thesis
    using example_run example_base_run by blast
qed

end
